theory Spec2Isabelle
  imports Complex_Main "HOL-Library.Sublist" "HOL-Library.List_Lexorder"
begin

section \<open>Python values\<close>

text \<open>
  A Python \<open>str\<close> is a sequence of Unicode code points, so it is modelled as a list of
  natural numbers: \<open>len\<close> is \<open>length\<close>, and characters outside ASCII (the keyword
  U+03B5 of \<open>suggest_guidance\<close>, the dash U+2013 in a chart caption) are single
  elements. \<open>S\<close> turns an ASCII literal into such a string.

  A Python \<open>float\<close> is an IEEE double. It is modelled as a real number, and a real
  number \<open>x\<close> of the model stands for the double nearest to it, \<open>fl x\<close>: a decimal
  literal such as \<open>0.65\<close>, or the result of \<open>round\<close>, is written as the decimal.
  \<open>round(x, n)\<close> is rounding to the nearest multiple of \<open>10^-n\<close>, ties to the
  even neighbour, which is what CPython computes on the exact value of a float.

  The backend's own arithmetic on floats (step 4 of \<open>analyze_freeform\<close>) is that of
  doubles: \<open>fadd\<close>, \<open>fsub\<close> and \<open>fmul\<close> round the exact result of the operation on
  the two doubles to the nearest double, ties to even. Overflow is left out: the
  operands there are bounded by 1 in magnitude. In the analyzer the arithmetic is exact:
  the similarity is a product of the external encoder's vectors, and what is proved of
  the risk heuristic of \<open>predict_label\<close> are ranges and values on binary fractions.
\<close>

type_synonym pystr = "nat list"

definition S :: "string \<Rightarrow> pystr" where
  "S s = map of_char s"

definition py_round :: "real \<Rightarrow> nat \<Rightarrow> real" where
  "py_round x n =
     (let s = x * 10 ^ n;
          f = \<lfloor>s\<rfloor>;
          d = s - of_int f
      in of_int (if d < 1 / 2 then f
                 else if 1 / 2 < d then f + 1
                 else if even f then f else f + 1) / 10 ^ n)"

text \<open>
  Rounding to the nearest integer, ties to even, and rounding to the nearest double: 53
  significant bits, and below \<open>2^-1022\<close> the fixed spacing \<open>2^-1074\<close> of the
  subnormal numbers.
\<close>

definition rne :: "real \<Rightarrow> int" where
  "rne s =
     (let f = \<lfloor>s\<rfloor>;
          d = s - of_int f
      in if d < 1 / 2 then f
         else if 1 / 2 < d then f + 1
         else if even f then f else f + 1)"

definition fl :: "real \<Rightarrow> real" where
  "fl x =
     (if x = 0 then 0
      else let e = max \<lfloor>log 2 \<bar>x\<bar>\<rfloor> (- 1022);
               ulp = 2 powr (of_int e - 52)
           in of_int (rne (x / ulp)) * ulp)"

definition fadd :: "real \<Rightarrow> real \<Rightarrow> real" where
  "fadd x y = fl (fl x + fl y)"

definition fsub :: "real \<Rightarrow> real \<Rightarrow> real" where
  "fsub x y = fl (fl x - fl y)"

definition fmul :: "real \<Rightarrow> real \<Rightarrow> real" where
  "fmul x y = fl (fl x * fl y)"

text \<open>
  \<open>str.isspace\<close>, which decides both what \<open>str.strip()\<close> removes and what the
  pattern \<open>\s\<close> matches on a \<open>str\<close>: the code points that CPython lists as whitespace.
\<close>

definition is_space :: "nat \<Rightarrow> bool" where
  "is_space c \<longleftrightarrow>
     (9 \<le> c \<and> c \<le> 13) \<or> (28 \<le> c \<and> c \<le> 32) \<or> c = 133 \<or> c = 160 \<or> c = 5760 \<or>
     (8192 \<le> c \<and> c \<le> 8202) \<or> c = 8232 \<or> c = 8233 \<or> c = 8239 \<or> c = 8287 \<or>
     c = 12288"

definition strip :: "pystr \<Rightarrow> pystr" where
  "strip t = rev (dropWhile is_space (rev (dropWhile is_space t)))"

text \<open>\<open>re.sub(r"\s+", " ", t)\<close>: every maximal run of whitespace becomes one space.\<close>

function sub_ws :: "pystr \<Rightarrow> pystr" where
  "sub_ws [] = []"
| "sub_ws (c # cs) =
     (if is_space c then 32 # sub_ws (dropWhile is_space cs) else c # sub_ws cs)"
  by pat_completeness auto
termination
  by (relation "measure length") (auto simp: length_dropWhile_le less_Suc_eq_le)

text \<open>\<open>k in s\<close> on strings: \<open>k\<close> occurs in \<open>s\<close> as a contiguous block.\<close>

fun str_in :: "pystr \<Rightarrow> pystr \<Rightarrow> bool" where
  "str_in k [] \<longleftrightarrow> k = []"
| "str_in k (c # cs) \<longleftrightarrow> prefix k (c # cs) \<or> str_in k cs"

text \<open>\<open>sep.join(xs)\<close>.\<close>

fun join :: "pystr \<Rightarrow> pystr list \<Rightarrow> pystr" where
  "join sep [] = []"
| "join sep [x] = x"
| "join sep (x # y # ys) = x @ sep @ join sep (y # ys)"

text \<open>
  \<open>str.lower()\<close> follows the case tables of the Unicode database, which are no part of
  the repository. The functions that call it take it as the argument \<open>lower\<close>;
  \<open>ascii_lower\<close> is its restriction to strings whose cased characters are ASCII.
\<close>

definition ascii_lower :: "pystr \<Rightarrow> pystr" where
  "ascii_lower s = map (\<lambda>c. if 65 \<le> c \<and> c \<le> 90 then c + 32 else c) s"

section \<open>models/text.py\<close>

text \<open>
  The sentence encoder is an external model. It is a function from a text to its
  embedding; \<open>encoder.encode(texts)\<close> embeds each text of the batch, and all embeddings
  have the encoder's fixed width.
\<close>

type_synonym vec = "real list"
type_synonym encoder = "pystr \<Rightarrow> vec"

definition embed :: "pystr list \<Rightarrow> encoder \<Rightarrow> vec list" where
  "embed texts enc = map enc texts"

text \<open>The matrix product \<open>a @ b.T\<close> of two row vectors of the same width.\<close>

definition dot :: "vec \<Rightarrow> vec \<Rightarrow> real" where
  "dot a b = (\<Sum>(x, y) \<leftarrow> zip a b. x * y)"

definition cosine_sim :: "vec \<Rightarrow> vec \<Rightarrow> real" where
  "cosine_sim a b = (let s = dot a b in max (- 1) (min 1 s))"

definition clean_text :: "pystr \<Rightarrow> pystr" where
  "clean_text t = sub_ws (strip t)"

section \<open>models/analyzer.py\<close>

text \<open>
  An exception carries its message. The classifier is the object that
  \<open>joblib.load\<close> returns: its \<open>classes_\<close> (here \<open>classes\<close>), and
  \<open>predict_proba\<close> and \<open>predict\<close> on one embedding, either of which may raise (a
  classifier without \<open>predict_proba\<close> raises on the attribute access).
\<close>

datatype exn = Exception pystr

record classifier =
  classes :: "pystr list"
  predict_proba :: "vec \<Rightarrow> exn + real list"
  predict :: "vec \<Rightarrow> exn + pystr"

text \<open>
  The artifacts directory: the content of \<open>misconception_clf.joblib\<close> and the rows
  \<open>(qid, label)\<close> of \<open>cluster_labels.parquet\<close>, each \<open>None\<close> when the file does not
  exist, and the item table that the difficulty estimator reads.
\<close>

record artifacts_dir =
  misconception_clf_joblib :: "classifier option"
  cluster_labels_parquet :: "(int \<times> pystr) list option"
  item_difficulty_table :: "(int \<times> real) list option"

record MisconceptionAnalyzer =
  encoder :: encoder
  loaded :: bool
  label_ref :: "int \<rightharpoonup> pystr list"
  clf :: "classifier option"

text \<open>\<open>sorted(set(str(x) for x in grp["label"].tolist()))\<close> for the group of \<open>qid\<close>.\<close>

definition group_labels :: "(int \<times> pystr) list \<Rightarrow> int \<Rightarrow> pystr list" where
  "group_labels df q = sort (remdups (map snd (filter (\<lambda>row. fst row = q) df)))"

text \<open>\<open>_load\<close>; \<open>df.groupby("qid")\<close> visits each qid of the table once, in ascending order.\<close>

definition load :: "MisconceptionAnalyzer \<Rightarrow> artifacts_dir \<Rightarrow> MisconceptionAnalyzer" where
  "load self art =
     (let self = (case misconception_clf_joblib art of
                    None \<Rightarrow> self
                  | Some c \<Rightarrow> self\<lparr>clf := Some c\<rparr>);
          self = (case cluster_labels_parquet art of
                    None \<Rightarrow> self
                  | Some df \<Rightarrow>
                      fold (\<lambda>q self. self\<lparr>label_ref := (label_ref self)(q \<mapsto> group_labels df q)\<rparr>)
                        (sort (remdups (map fst df))) self)
      in self\<lparr>loaded := True\<rparr>)"

definition init :: "artifacts_dir \<Rightarrow> encoder \<Rightarrow> MisconceptionAnalyzer" where
  "init artifacts_dir enc =
     load \<lparr>encoder = enc, loaded = False, label_ref = Map.empty, clf = None\<rparr> artifacts_dir"

definition similarity :: "MisconceptionAnalyzer \<Rightarrow> pystr \<Rightarrow> pystr \<Rightarrow> real" where
  "similarity self a_text b_text =
     (let vecs = embed [clean_text a_text, clean_text b_text] (encoder self);
          a_vec = vecs ! 0;
          b_vec = vecs ! 1
      in py_round (cosine_sim a_vec b_vec) 4)"

text \<open>\<open>np.argmax\<close> on a non-empty array: the first index of the greatest entry.\<close>

fun argmax :: "real list \<Rightarrow> nat" where
  "argmax [] = 0"
| "argmax [x] = 0"
| "argmax (x # y # ys) = (let j = argmax (y # ys) in if x < (y # ys) ! j then Suc j else 0)"

text \<open>
  The \<open>try\<close> block of \<open>predict_label\<close> and its \<open>except\<close> branch. Whatever the block
  raises (no \<open>predict_proba\<close>, \<open>argmax\<close> of an empty array, an index beyond
  \<open>classes_\<close>) is caught, and the label then comes from \<open>predict\<close> with confidence 0.6;
  an exception of \<open>predict\<close> itself is not caught.
\<close>

definition classify :: "classifier \<Rightarrow> vec \<Rightarrow> exn + pystr \<times> real" where
  "classify c vec =
     (let hard = (case predict c vec of Inl e \<Rightarrow> Inl e | Inr l \<Rightarrow> Inr (l, 0.6))
      in case predict_proba c vec of
           Inl e \<Rightarrow> hard
         | Inr proba \<Rightarrow>
             if proba = [] then hard
             else let idx = argmax proba
                  in if idx < length (classes c) then Inr (classes c ! idx, proba ! idx)
                     else hard)"

text \<open>
  The dictionary that \<open>predict_label\<close> returns. The caller reads it with \<open>.get\<close> and
  a default, so each key is optional.
\<close>

record prediction =
  label :: "pystr option"
  confidence :: "real option"
  risk :: "real option"
  explanation :: "pystr option"

definition risk_keywords :: "pystr list" where
  "risk_keywords = [S ''miscon'', S ''error'', S ''wrong'', S ''confuse'', S ''noise'']"

definition unseen_marker :: pystr where
  "unseen_marker = S '' (unseen@qid)''"

definition predict_label ::
  "(pystr \<Rightarrow> pystr) \<Rightarrow> MisconceptionAnalyzer \<Rightarrow> pystr \<Rightarrow> int option \<Rightarrow> exn + prediction" where
  "predict_label lower self user_answer qid =
     (let text = clean_text user_answer;
          vec = embed [text] (encoder self) ! 0
      in case clf self of
           None \<Rightarrow>
             Inr \<lparr>label = Some (S ''unknown''), confidence = Some 0.5, risk = Some 0.4,
                  explanation = Some (S ''No classifier artifact found.'')\<rparr>
         | Some c \<Rightarrow>
             (case classify c vec of
                Inl e \<Rightarrow> Inl e
              | Inr (lbl, conf) \<Rightarrow>
                  let rsk = (if list_ex (\<lambda>k. str_in k (lower lbl)) risk_keywords
                             then max 0.4 (1.0 - conf + 0.4) else 0.2);
                      ood = (case qid of
                               None \<Rightarrow> False
                             | Some q \<Rightarrow>
                                 (case label_ref self q of
                                    None \<Rightarrow> False
                                  | Some known \<Rightarrow> lbl \<notin> set known));
                      lbl = (if ood then lbl @ unseen_marker else lbl);
                      rsk = (if ood then max rsk 0.5 else rsk)
                  in Inr \<lparr>label = Some lbl, confidence = Some (py_round conf 3),
                          risk = Some (py_round rsk 3), explanation = None\<rparr>))"

definition guidance_keywords :: "pystr list" where
  "guidance_keywords =
     [S ''epsilon'', [949], S ''dfa'', S ''nfa'', S ''regex'', S ''star'', S ''union'',
      S ''concat'', S ''equiv'']"

definition tip_start :: pystr where
  "tip_start = S ''Start by restating the key term from the question in one line.''"

definition tip_definition :: pystr where
  "tip_definition = S ''Add a precise definition and one verifying example.''"

definition tip_contrast :: pystr where
  "tip_contrast =
     S ''Address the specific confusion noted in the label; contrast the two concepts explicitly.''"

definition tip_finish :: pystr where
  "tip_finish = S ''Finish with a short check: why your answer satisfies the definition or rule.''"

definition suggest_guidance ::
  "(pystr \<Rightarrow> pystr) \<Rightarrow> MisconceptionAnalyzer \<Rightarrow> pystr \<Rightarrow> pystr \<Rightarrow> pystr \<Rightarrow> pystr \<Rightarrow> pystr" where
  "suggest_guidance lower self question ideal user mis_label =
     (let sim_ui = similarity self user ideal;
          tips = [tip_start];
          tips = (if sim_ui < 0.65 then tips @ [tip_definition] else tips);
          tips = (if list_ex (\<lambda>k. str_in k (lower mis_label)) guidance_keywords
                  then tips @ [tip_contrast] else tips);
          tips = tips @ [tip_finish]
      in join (S '' '') tips)"

section \<open>models/difficulty.py\<close>

text \<open>
  The module is not among the sources; the backend uses its \<open>estimate\<close>, whose result
  holds a normalized difficulty, a bucket and the echoed question id, and its
  \<open>n_items\<close>.
\<close>

record difficulty_estimate =
  difficulty_norm :: real
  bucket :: pystr
  known_qid :: "int option"

record DifficultyEstimator =
  n_items :: nat
  estimate :: "pystr \<Rightarrow> int option \<Rightarrow> exn + difficulty_estimate"

text \<open>
  Modelled from the spec: \<open>models/difficulty.py\<close>, which defines
  \<open>DifficultyEstimator\<close>, is not among the sources. By the specification the estimator
  loads a pre-trained item-difficulty table from the artifacts directory, degrades
  gracefully when the file is absent, and exposes its item count for health reporting.
  Its \<open>estimate\<close> is left open: it is the argument \<open>est\<close>.
\<close>

definition DifficultyEstimator_init ::
  "artifacts_dir \<Rightarrow> (pystr \<Rightarrow> int option \<Rightarrow> exn + difficulty_estimate) \<Rightarrow> DifficultyEstimator" where
  "DifficultyEstimator_init art est =
     \<lparr>n_items = (case item_difficulty_table art of None \<Rightarrow> 0 | Some rows \<Rightarrow> length rows),
      estimate = est\<rparr>"

section \<open>backend/app.py\<close>

text \<open>The components that the module loads on startup.\<close>

record backend =
  mis_analyzer :: MisconceptionAnalyzer
  diff_est :: DifficultyEstimator

definition startup ::
  "artifacts_dir \<Rightarrow> encoder \<Rightarrow> (pystr \<Rightarrow> int option \<Rightarrow> exn + difficulty_estimate) \<Rightarrow> backend" where
  "startup ART_DIR enc est =
     \<lparr>mis_analyzer = init ART_DIR enc, diff_est = DifficultyEstimator_init ART_DIR est\<rparr>"

record health_response =
  ok :: bool
  artifacts :: bool
  difficulty_items :: nat

definition health :: "backend \<Rightarrow> health_response" where
  "health app =
     \<lparr>ok = True, artifacts = loaded (mis_analyzer app),
      difficulty_items = n_items (diff_est app)\<rparr>"

record AnalyzeBody =
  question_text :: pystr
  ideal_answer_text :: pystr
  user_answer_text :: pystr
  qid :: "int option"

text \<open>
  The constraints of the schema: \<open>Field(..., min_length=n)\<close> accepts a string of at
  least \<open>n\<close> characters, as it is sent. A body that fails them is rejected before the
  endpoint runs.
\<close>

definition AnalyzeBody_valid :: "AnalyzeBody \<Rightarrow> bool" where
  "AnalyzeBody_valid b \<longleftrightarrow>
     3 \<le> length (question_text b) \<and> 3 \<le> length (ideal_answer_text b) \<and>
     1 \<le> length (user_answer_text b)"

datatype http_error = HTTPException nat pystr

record analysis_result =
  out_question_text :: pystr
  out_ideal_answer_text :: pystr
  out_user_answer_text :: pystr
  user_vs_ideal :: real
  question_vs_ideal :: real
  misconception :: prediction
  difficulty :: difficulty_estimate
  answer_score :: real
  guidance :: pystr
  pie :: "(pystr \<times> real) list"
  bars :: "(pystr \<times> real) list"

text \<open>\<open>d.get(key, default)\<close> on an optional entry.\<close>

definition get_or :: "'a option \<Rightarrow> 'a \<Rightarrow> 'a" where
  "get_or entry dflt = (case entry of None \<Rightarrow> dflt | Some v \<Rightarrow> v)"

text \<open>Step 4 of \<open>analyze_freeform\<close>: the risk taken from the prediction, then clamped.\<close>

definition derive_mis_risk :: "prediction \<Rightarrow> real" where
  "derive_mis_risk mis_pred =
     (let mis_risk = (if label mis_pred = Some (S ''noise'') \<or> label mis_pred = Some (S ''misc'')
                      then fsub 1.0 (get_or (confidence mis_pred) 0.5)
                      else get_or (risk mis_pred) 0.4)
      in max 0.0 (min 1.0 mis_risk))"

text \<open>Step 4 of \<open>analyze_freeform\<close>: the blended score.\<close>

definition blend_answer_score :: "real \<Rightarrow> real \<Rightarrow> real" where
  "blend_answer_score sim_ui_vs_ideal mis_risk =
     (let answer_score = fadd (fmul 0.65 sim_ui_vs_ideal) (fmul 0.35 (fsub 1.0 mis_risk))
      in py_round answer_score 3)"

definition analysis_failed :: "exn \<Rightarrow> http_error" where
  "analysis_failed e = (case e of Exception msg \<Rightarrow> HTTPException 500 (S ''Analysis failed: '' @ msg))"

definition analyze_freeform ::
  "(pystr \<Rightarrow> pystr) \<Rightarrow> backend \<Rightarrow> AnalyzeBody \<Rightarrow> http_error + analysis_result" where
  "analyze_freeform lower app b =
     (let sim_ui_vs_ideal = similarity (mis_analyzer app) (user_answer_text b) (ideal_answer_text b);
          sim_qi = similarity (mis_analyzer app) (question_text b) (ideal_answer_text b)
      in case predict_label lower (mis_analyzer app) (user_answer_text b) (qid b) of
           Inl e \<Rightarrow> Inl (analysis_failed e)
         | Inr mis_pred \<Rightarrow>
             (case estimate (diff_est app) (question_text b) (qid b) of
                Inl e \<Rightarrow> Inl (analysis_failed e)
              | Inr diff \<Rightarrow>
                  let mis_risk = derive_mis_risk mis_pred;
                      answer_score = blend_answer_score sim_ui_vs_ideal mis_risk;
                      guidance = suggest_guidance lower (mis_analyzer app) (question_text b)
                                   (ideal_answer_text b) (user_answer_text b)
                                   (get_or (label mis_pred) (S ''noise''));
                      pie = [(S ''Matches Ideal'', py_round sim_ui_vs_ideal 3),
                             (S ''Gaps vs Ideal'', py_round (max 0.0 (1.0 - sim_ui_vs_ideal - 0.15)) 3),
                             (S ''Misconception Risk'', py_round (min 0.4 mis_risk) 3)];
                      bars = [(S ''User vs Ideal'', py_round sim_ui_vs_ideal 3),
                              (S ''Question vs Ideal'', py_round sim_qi 3),
                              (S ''Difficulty (0 easy'' @ [8211] @ S ''1 hard)'',
                               py_round (difficulty_norm diff) 3)]
                  in Inr \<lparr>out_question_text = question_text b,
                          out_ideal_answer_text = ideal_answer_text b,
                          out_user_answer_text = user_answer_text b,
                          user_vs_ideal = py_round sim_ui_vs_ideal 3,
                          question_vs_ideal = py_round sim_qi 3,
                          misconception = mis_pred,
                          difficulty = diff,
                          answer_score = answer_score,
                          guidance = guidance,
                          pie = pie,
                          bars = bars\<rparr>))"

text \<open>
  \<open>POST /api/analyze/freeform\<close>: the schema is checked first. A body that fails it is
  answered with status 422; the detail of that answer is not modelled beyond its status.
\<close>

definition post_analyze_freeform ::
  "(pystr \<Rightarrow> pystr) \<Rightarrow> backend \<Rightarrow> AnalyzeBody \<Rightarrow> http_error + analysis_result" where
  "post_analyze_freeform lower app b =
     (if AnalyzeBody_valid b then analyze_freeform lower app b
      else Inl (HTTPException 422 (S ''Unprocessable Entity'')))"

section \<open>Concrete inputs\<close>

text \<open>
  A classifier that answers every embedding with the same probabilities, an encoder
  with three distinct unit embeddings, a difficulty estimator, and a few artifacts
  directories and request bodies, on which the theorems below are instantiated.
\<close>

definition const_classifier :: "pystr list \<Rightarrow> real list \<Rightarrow> classifier" where
  "const_classifier cls proba =
     \<lparr>classes = cls, predict_proba = (\<lambda>vec. Inr proba),
      predict = (\<lambda>vec. Inr (cls ! argmax proba))\<rparr>"

definition demo_encoder :: encoder where
  "demo_encoder t =
     (if t = S ''Plants make food from sunlight.'' then [0.8, 0.6]
      else if t = S ''I do not know.'' then [0.6, 0.8]
      else [1, 0])"

definition demo_estimate :: "pystr \<Rightarrow> int option \<Rightarrow> exn + difficulty_estimate" where
  "demo_estimate q_text q_id =
     Inr \<lparr>difficulty_norm = 0.5, bucket = S ''medium'', known_qid = q_id\<rparr>"

definition empty_artifacts :: artifacts_dir where
  "empty_artifacts =
     \<lparr>misconception_clf_joblib = None, cluster_labels_parquet = None,
      item_difficulty_table = None\<rparr>"

definition labels_only_artifacts :: artifacts_dir where
  "labels_only_artifacts =
     \<lparr>misconception_clf_joblib = None,
      cluster_labels_parquet = Some [(7, S ''B''), (7, S ''A''), (7, S ''B'')],
      item_difficulty_table = None\<rparr>"

definition risky_artifacts :: artifacts_dir where
  "risky_artifacts =
     \<lparr>misconception_clf_joblib =
        Some (const_classifier [S ''noise'', S ''correct'', S ''partial''] [0.375, 0.3125, 0.3125]),
      cluster_labels_parquet = None, item_difficulty_table = None\<rparr>"


definition plain_artifacts :: artifacts_dir where
  "plain_artifacts =
     \<lparr>misconception_clf_joblib = Some (const_classifier [S ''correct'', S ''noise''] [0.9, 0.1]),
      cluster_labels_parquet = None, item_difficulty_table = None\<rparr>"

definition demo_body :: AnalyzeBody where
  "demo_body =
     \<lparr>question_text = S ''Explain photosynthesis.'',
      ideal_answer_text = S ''Plants convert light into chemical energy.'',
      user_answer_text = S ''Plants make food from sunlight.'',
      qid = None\<rparr>"

text \<open>
  An answer whose embedding has the cosine 4216/8266 with the ideal answer's, so that
  its similarity is 0.51.
\<close>

definition tie_encoder :: encoder where
  "tie_encoder t =
     (if t = S ''Light is absorbed.'' then [4216 / 8266, 7110 / 8266] else [1, 0])"

definition tie_body :: AnalyzeBody where
  "tie_body =
     \<lparr>question_text = S ''Explain photosynthesis.'',
      ideal_answer_text = S ''Plants convert light into chemical energy.'',
      user_answer_text = S ''Light is absorbed.'',
      qid = None\<rparr>"

definition blank_body :: AnalyzeBody where
  "blank_body =
     \<lparr>question_text = S ''   '', ideal_answer_text = S ''   '', user_answer_text = S '' '',
      qid = None\<rparr>"

section \<open>Rounding\<close>

text \<open>
  \<open>py_round\<close> returns the floor of the scaled value or the next integer, and the next
  integer only when the scaled value lies strictly above its floor. So rounding never
  crosses a multiple of \<open>10^-n\<close>.
\<close>

lemma py_round_cases:
  "py_round x n = of_int \<lfloor>x * 10 ^ n\<rfloor> / 10 ^ n \<or>
   (py_round x n = of_int (\<lfloor>x * 10 ^ n\<rfloor> + 1) / 10 ^ n \<and>
    of_int \<lfloor>x * 10 ^ n\<rfloor> < x * 10 ^ n)"
  by (auto simp: py_round_def Let_def)

lemma py_round_lower:
  assumes "of_int k \<le> x * 10 ^ n"
  shows "of_int k / 10 ^ n \<le> py_round x n"
proof -
  have k: "k \<le> \<lfloor>x * 10 ^ n\<rfloor>"
    using assms by (simp add: le_floor_iff)
  have pos: "(0::real) < 10 ^ n"
    by simp
  from py_round_cases [of x n] show ?thesis
  proof
    assume "py_round x n = of_int \<lfloor>x * 10 ^ n\<rfloor> / 10 ^ n"
    with k pos show ?thesis
      by (simp add: divide_le_cancel)
  next
    assume "py_round x n = of_int (\<lfloor>x * 10 ^ n\<rfloor> + 1) / 10 ^ n \<and>
      of_int \<lfloor>x * 10 ^ n\<rfloor> < x * 10 ^ n"
    with k pos show ?thesis
      by (simp add: divide_le_cancel)
  qed
qed

lemma py_round_upper:
  assumes "x * 10 ^ n \<le> of_int k"
  shows "py_round x n \<le> of_int k / 10 ^ n"
proof -
  have pos: "(0::real) < 10 ^ n"
    by simp
  from py_round_cases [of x n] show ?thesis
  proof
    assume e: "py_round x n = of_int \<lfloor>x * 10 ^ n\<rfloor> / 10 ^ n"
    have "\<lfloor>x * 10 ^ n\<rfloor> \<le> k"
      using assms by (simp add: floor_le_iff)
    with e pos show ?thesis
      by (simp add: divide_le_cancel)
  next
    assume e: "py_round x n = of_int (\<lfloor>x * 10 ^ n\<rfloor> + 1) / 10 ^ n \<and>
      of_int \<lfloor>x * 10 ^ n\<rfloor> < x * 10 ^ n"
    then have "of_int \<lfloor>x * 10 ^ n\<rfloor> < (of_int k :: real)"
      using assms by linarith
    then have "\<lfloor>x * 10 ^ n\<rfloor> + 1 \<le> k"
      by simp
    with e pos show ?thesis
      by (simp add: divide_le_cancel)
  qed
qed

lemma py_round3_bounds:
  assumes "of_int lo / 1000 \<le> x" "x \<le> of_int hi / 1000"
  shows "of_int lo / 1000 \<le> py_round x 3 \<and> py_round x 3 \<le> of_int hi / 1000"
  using py_round_lower [of lo x 3] py_round_upper [of x 3 hi] assms by simp

text \<open>
  The double nearest to a number of the binade \<open>[2^-k, 2^(1-k))\<close>: its multiple of
  \<open>2^-(52+k)\<close>.
\<close>

lemma fl_binade:
  assumes lo: "1 \<le> \<bar>x\<bar> * 2 ^ k" and hi: "\<bar>x\<bar> * 2 ^ k < 2" and k: "k \<le> 1022"
  shows "fl x = of_int (rne (x * 2 ^ (52 + k))) / 2 ^ (52 + k)"
proof -
  have x: "x \<noteq> 0"
    using lo by auto
  have p: "(2::real) powr (- real k) = 1 / 2 ^ k"
    by (simp add: powr_minus powr_realpow inverse_eq_divide)
  have p1: "(2::real) powr (1 - real k) = 2 / 2 ^ k"
    by (simp add: powr_diff powr_realpow)
  have "\<lfloor>log 2 \<bar>x\<bar>\<rfloor> = - int k"
  proof -
    have "(2::real) powr (- real k) \<le> \<bar>x\<bar>"
      using lo by (simp add: p field_simps)
    moreover have "\<bar>x\<bar> < 2 powr (1 - real k)"
      using hi by (simp add: p1 field_simps)
    ultimately have "(2::real) powr (of_int (- int k)) \<le> \<bar>x\<bar> \<and>
        \<bar>x\<bar> < 2 powr (of_int (- int k) + 1)"
      by simp
    with x show ?thesis
      using floor_log_eq_powr_iff [of "\<bar>x\<bar>" 2 "- int k"] by simp
  qed
  then have e: "max \<lfloor>log 2 \<bar>x\<bar>\<rfloor> (- 1022) = - int k"
    using k by simp
  have u: "(2::real) powr (of_int (- int k) - 52) = 1 / 2 ^ (52 + k)"
  proof -
    have "of_int (- int k) - (52::real) = - real (52 + k)"
      by simp
    then have "(2::real) powr (of_int (- int k) - 52) = 2 powr (- real (52 + k))"
      by (rule arg_cong)
    also have "\<dots> = 1 / 2 ^ (52 + k)"
      by (simp only: powr_minus powr_realpow inverse_eq_divide)
    finally show ?thesis .
  qed
  show ?thesis
    using x by (simp add: fl_def Let_def e u del: of_int_minus)
qed

text \<open>
  The blended score at similarity 0.8, 0.51 and 0.03, each with risk 0.2, each
  operation evaluated on doubles. At 0.51 and at 0.03 the exact sums are the ties 0.6115
  and 0.2995; the sums of doubles lie below them.
\<close>

lemma blend_answer_score_08_02: "blend_answer_score (8 / 10) (2 / 10) = 4 / 5"
proof -
  have c65: "fl (0.65) = 5854679515581645 / 9007199254740992"
    by (subst fl_binade [where k = 1]) (simp_all add: rne_def Let_def)
  have fs: "fl (8 / 10) = 3602879701896397 / 4503599627370496"
    by (subst fl_binade [where k = 1]) (simp_all add: rne_def Let_def)
  have p1: "fl ((5854679515581645 / 9007199254740992) * (3602879701896397 / 4503599627370496))
      = 1170935903116329 / 2251799813685248"
    by (subst fl_binade [where k = 1]) (simp_all add: rne_def Let_def)
  have p1': "fl (1170935903116329 / 2251799813685248) = 1170935903116329 / 2251799813685248"
    by (subst fl_binade [where k = 1]) (simp_all add: rne_def Let_def)
  have one: "fl (1.0) = 1"
    by (subst fl_binade [where k = 0]) (simp_all add: rne_def Let_def)
  have fm: "fl (2 / 10) = 3602879701896397 / 18014398509481984"
    by (subst fl_binade [where k = 3]) (simp_all add: rne_def Let_def)
  have d: "fl (1 - (3602879701896397 / 18014398509481984)) = 3602879701896397 / 4503599627370496"
    by (subst fl_binade [where k = 1]) (simp_all add: rne_def Let_def)
  have d': "fl (3602879701896397 / 4503599627370496) = 3602879701896397 / 4503599627370496"
    by (subst fl_binade [where k = 1]) (simp_all add: rne_def Let_def)
  have c35: "fl (0.35) = 3152519739159347 / 9007199254740992"
    by (subst fl_binade [where k = 2]) (simp_all add: rne_def Let_def)
  have p2: "fl ((3152519739159347 / 9007199254740992) * (3602879701896397 / 4503599627370496))
      = 5044031582654955 / 18014398509481984"
    by (subst fl_binade [where k = 2]) (simp_all add: rne_def Let_def)
  have p2': "fl (5044031582654955 / 18014398509481984) = 5044031582654955 / 18014398509481984"
    by (subst fl_binade [where k = 2]) (simp_all add: rne_def Let_def)
  have sum: "fl (1170935903116329 / 2251799813685248 + (5044031582654955 / 18014398509481984))
      = 3602879701896397 / 4503599627370496"
    by (subst fl_binade [where k = 1]) (simp_all add: rne_def Let_def)
  have r: "py_round (3602879701896397 / 4503599627370496) 3 = 4 / 5"
    by (simp add: py_round_def Let_def)
  show ?thesis
    by (simp only: blend_answer_score_def fadd_def fmul_def fsub_def Let_def
        c65 fs p1 p1' one fm d d' c35 p2 p2' sum r)
qed

lemma blend_answer_score_051_02: "blend_answer_score (51 / 100) (2 / 10) = 611 / 1000"
proof -
  have c65: "fl (0.65) = 5854679515581645 / 9007199254740992"
    by (subst fl_binade [where k = 1]) (simp_all add: rne_def Let_def)
  have fs: "fl (51 / 100) = 2296835809958953 / 4503599627370496"
    by (subst fl_binade [where k = 1]) (simp_all add: rne_def Let_def)
  have p1: "fl ((5854679515581645 / 9007199254740992) * (2296835809958953 / 4503599627370496))
      = 2985886552946639 / 9007199254740992"
    by (subst fl_binade [where k = 2]) (simp_all add: rne_def Let_def)
  have p1': "fl (2985886552946639 / 9007199254740992) = 2985886552946639 / 9007199254740992"
    by (subst fl_binade [where k = 2]) (simp_all add: rne_def Let_def)
  have one: "fl (1.0) = 1"
    by (subst fl_binade [where k = 0]) (simp_all add: rne_def Let_def)
  have fm: "fl (2 / 10) = 3602879701896397 / 18014398509481984"
    by (subst fl_binade [where k = 3]) (simp_all add: rne_def Let_def)
  have d: "fl (1 - (3602879701896397 / 18014398509481984)) = 3602879701896397 / 4503599627370496"
    by (subst fl_binade [where k = 1]) (simp_all add: rne_def Let_def)
  have d': "fl (3602879701896397 / 4503599627370496) = 3602879701896397 / 4503599627370496"
    by (subst fl_binade [where k = 1]) (simp_all add: rne_def Let_def)
  have c35: "fl (0.35) = 3152519739159347 / 9007199254740992"
    by (subst fl_binade [where k = 2]) (simp_all add: rne_def Let_def)
  have p2: "fl ((3152519739159347 / 9007199254740992) * (3602879701896397 / 4503599627370496))
      = 5044031582654955 / 18014398509481984"
    by (subst fl_binade [where k = 2]) (simp_all add: rne_def Let_def)
  have p2': "fl (5044031582654955 / 18014398509481984) = 5044031582654955 / 18014398509481984"
    by (subst fl_binade [where k = 2]) (simp_all add: rne_def Let_def)
  have sum: "fl (2985886552946639 / 9007199254740992 + (5044031582654955 / 18014398509481984))
      = 1376975586068529 / 2251799813685248"
    by (subst fl_binade [where k = 1]) (simp_all add: rne_def Let_def)
  have r: "py_round (1376975586068529 / 2251799813685248) 3 = 611 / 1000"
    by (simp add: py_round_def Let_def)
  show ?thesis
    by (simp only: blend_answer_score_def fadd_def fmul_def fsub_def Let_def
        c65 fs p1 p1' one fm d d' c35 p2 p2' sum r)
qed

lemma blend_answer_score_003_02: "blend_answer_score (3 / 100) (2 / 10) = 299 / 1000"
proof -
  have c65: "fl (0.65) = 5854679515581645 / 9007199254740992"
    by (subst fl_binade [where k = 1]) (simp_all add: rne_def Let_def)
  have fs: "fl (3 / 100) = 1080863910568919 / 36028797018963968"
    by (subst fl_binade [where k = 6]) (simp_all add: rne_def Let_def)
  have p1: "fl ((5854679515581645 / 9007199254740992) * (1080863910568919 / 36028797018963968))
      = 5620492334958379 / 288230376151711744"
    by (subst fl_binade [where k = 6]) (simp_all add: rne_def Let_def)
  have p1': "fl (5620492334958379 / 288230376151711744) = 5620492334958379 / 288230376151711744"
    by (subst fl_binade [where k = 6]) (simp_all add: rne_def Let_def)
  have one: "fl (1.0) = 1"
    by (subst fl_binade [where k = 0]) (simp_all add: rne_def Let_def)
  have fm: "fl (2 / 10) = 3602879701896397 / 18014398509481984"
    by (subst fl_binade [where k = 3]) (simp_all add: rne_def Let_def)
  have d: "fl (1 - (3602879701896397 / 18014398509481984)) = 3602879701896397 / 4503599627370496"
    by (subst fl_binade [where k = 1]) (simp_all add: rne_def Let_def)
  have d': "fl (3602879701896397 / 4503599627370496) = 3602879701896397 / 4503599627370496"
    by (subst fl_binade [where k = 1]) (simp_all add: rne_def Let_def)
  have c35: "fl (0.35) = 3152519739159347 / 9007199254740992"
    by (subst fl_binade [where k = 2]) (simp_all add: rne_def Let_def)
  have p2: "fl ((3152519739159347 / 9007199254740992) * (3602879701896397 / 4503599627370496))
      = 5044031582654955 / 18014398509481984"
    by (subst fl_binade [where k = 2]) (simp_all add: rne_def Let_def)
  have p2': "fl (5044031582654955 / 18014398509481984) = 5044031582654955 / 18014398509481984"
    by (subst fl_binade [where k = 2]) (simp_all add: rne_def Let_def)
  have sum: "fl (5620492334958379 / 288230376151711744 + (5044031582654955 / 18014398509481984))
      = 2697656176794927 / 9007199254740992"
    by (subst fl_binade [where k = 2]) (simp_all add: rne_def Let_def)
  have r: "py_round (2697656176794927 / 9007199254740992) 3 = 299 / 1000"
    by (simp add: py_round_def Let_def)
  show ?thesis
    by (simp only: blend_answer_score_def fadd_def fmul_def fsub_def Let_def
        c65 fs p1 p1' one fm d d' c35 p2 p2' sum r)
qed

section \<open>Strings\<close>

lemma str_in_sublist: "str_in k s \<longleftrightarrow> sublist k s"
  by (induction s) (auto simp: sublist_Cons_right)

lemma dropWhile_all: "(\<forall>x \<in> set (dropWhile P xs). P x) \<longleftrightarrow> (\<forall>x \<in> set xs. P x)"
proof
  assume a: "\<forall>x \<in> set (dropWhile P xs). P x"
  have "dropWhile P xs = []"
  proof (rule ccontr)
    assume n: "dropWhile P xs \<noteq> []"
    then have "\<not> P (hd (dropWhile P xs))"
      by (rule hd_dropWhile)
    with a n show False
      by simp
  qed
  then show "\<forall>x \<in> set xs. P x"
    by (simp add: dropWhile_eq_Nil_conv)
next
  assume "\<forall>x \<in> set xs. P x"
  then show "\<forall>x \<in> set (dropWhile P xs). P x"
    by (meson set_dropWhileD)
qed

lemma strip_empty_iff: "strip t = [] \<longleftrightarrow> list_all is_space t"
  by (simp add: strip_def dropWhile_eq_Nil_conv dropWhile_all list_all_iff)

section \<open>The analyzer\<close>

lemma clf_load:
  "clf (load self art) =
     (case misconception_clf_joblib art of None \<Rightarrow> clf self | Some c \<Rightarrow> Some c)"
proof -
  have f: "clf (fold (\<lambda>q self. self\<lparr>label_ref := (label_ref self)(q \<mapsto> g q)\<rparr>) qs s) = clf s"
    for g qs and s :: MisconceptionAnalyzer
    by (induction qs arbitrary: s) simp_all
  show ?thesis
    by (simp add: load_def Let_def f split: option.splits)
qed

lemma loaded_load: "loaded (load self art)"
  by (simp add: load_def Let_def)

lemma argmax_less: "xs \<noteq> [] \<Longrightarrow> argmax xs < length xs"
  by (induction xs rule: argmax.induct) (auto simp: Let_def)

text \<open>The confidence is an entry of the probability vector, or the fixed 0.6.\<close>

lemma classify_conf:
  assumes wf: "\<And>vec proba. predict_proba c vec = Inr proba \<Longrightarrow>
      list_all (\<lambda>p. 0 \<le> p \<and> p \<le> 1) proba"
    and r: "classify c vec = Inr (lbl, conf)"
  shows "0 \<le> conf \<and> conf \<le> 1"
proof (cases "predict_proba c vec")
  case (Inl e)
  with r show ?thesis
    by (auto simp: classify_def split: sum.splits)
next
  case (Inr proba)
  show ?thesis
  proof (cases "proba \<noteq> [] \<and> argmax proba < length (classes c)")
    case True
    with Inr r have conf: "conf = proba ! argmax proba"
      by (simp add: classify_def Let_def)
    from True have "argmax proba < length proba"
      by (simp add: argmax_less)
    with wf [OF Inr] conf show ?thesis
      by (simp add: list_all_length)
  next
    case False
    with Inr r show ?thesis
      by (auto simp: classify_def Let_def split: sum.splits if_splits)
  qed
qed

text \<open>\<open>predict_label\<close> once the classifier has answered.\<close>

lemma predict_label_classified:
  assumes "clf self = Some c"
    and "classify c (encoder self (clean_text user_answer)) = Inr (lbl, conf)"
  shows "predict_label lower self user_answer q =
     (let rsk = (if list_ex (\<lambda>k. str_in k (lower lbl)) risk_keywords
                 then max 0.4 (1.0 - conf + 0.4) else 0.2);
          ood = (case q of
                   None \<Rightarrow> False
                 | Some q \<Rightarrow>
                     (case label_ref self q of
                        None \<Rightarrow> False
                      | Some known \<Rightarrow> lbl \<notin> set known))
      in Inr \<lparr>label = Some (if ood then lbl @ unseen_marker else lbl),
              confidence = Some (py_round conf 3),
              risk = Some (py_round (if ood then max rsk 0.5 else rsk) 3),
              explanation = None\<rparr>)"
  using assms by (simp add: predict_label_def embed_def Let_def)

lemma predict_label_cases:
  assumes "predict_label lower self user_answer q = Inr p"
  shows "(clf self = None \<and> confidence p = Some 0.5 \<and> risk p = Some 0.4) \<or>
         (\<exists>c lbl conf rsk. clf self = Some c \<and>
            classify c (encoder self (clean_text user_answer)) = Inr (lbl, conf) \<and>
            confidence p = Some (py_round conf 3) \<and> risk p = Some (py_round rsk 3) \<and>
            0.2 \<le> rsk \<and> rsk \<le> max 0.5 (1.4 - conf))"
proof (cases "clf self")
  case None
  with assms show ?thesis
    by (auto simp: predict_label_def)
next
  case (Some c)
  show ?thesis
  proof (cases "classify c (encoder self (clean_text user_answer))")
    case (Inl e)
    with Some assms show ?thesis
      by (simp add: predict_label_def embed_def)
  next
    case (Inr lc)
    obtain lbl conf where lc: "lc = (lbl, conf)"
      by (cases lc)
    from assms predict_label_classified [OF Some Inr [unfolded lc], of lower q]
    show ?thesis
      using Some Inr lc by (auto simp: Let_def max_def)
  qed
qed

section \<open>The backend\<close>

text \<open>The endpoint returns a result exactly when the prediction and the estimate succeed.\<close>

lemma analyze_freeform_success:
  assumes "predict_label lower (mis_analyzer app) (user_answer_text b) (qid b) = Inr p"
    and "estimate (diff_est app) (question_text b) (qid b) = Inr d"
  shows "\<exists>r. analyze_freeform lower app b = Inr r \<and> misconception r = p \<and> difficulty r = d \<and>
     answer_score r =
       blend_answer_score
         (similarity (mis_analyzer app) (user_answer_text b) (ideal_answer_text b))
         (derive_mis_risk p) \<and>
     guidance r =
       suggest_guidance lower (mis_analyzer app) (question_text b) (ideal_answer_text b)
         (user_answer_text b) (get_or (label p) (S ''noise''))"
  using assms by (simp add: analyze_freeform_def Let_def)

lemma analyze_freeform_Inr:
  assumes "analyze_freeform lower app b = Inr r"
  shows "predict_label lower (mis_analyzer app) (user_answer_text b) (qid b) =
       Inr (misconception r) \<and>
     estimate (diff_est app) (question_text b) (qid b) = Inr (difficulty r) \<and>
     answer_score r =
       blend_answer_score
         (similarity (mis_analyzer app) (user_answer_text b) (ideal_answer_text b))
         (derive_mis_risk (misconception r))"
  using assms by (auto simp: analyze_freeform_def Let_def split: sum.splits)

text \<open>The concrete request: similarity 0.8, label "correct", risk 0.2.\<close>

lemma demo_valid: "AnalyzeBody_valid demo_body"
  by (simp add: AnalyzeBody_valid_def demo_body_def S_def)

lemma demo_similarity:
  "similarity (init plain_artifacts demo_encoder) (S ''Plants make food from sunlight.'')
     (S ''Plants convert light into chemical energy.'') = 0.8"
  by (simp add: similarity_def init_def load_def plain_artifacts_def embed_def clean_text_def
      strip_def is_space_def demo_encoder_def S_def cosine_sim_def dot_def py_round_def Let_def)

lemma low_similarity:
  "similarity (init plain_artifacts demo_encoder) (S ''I do not know.'')
     (S ''Plants convert light into chemical energy.'') = 0.6"
  by (simp add: similarity_def init_def load_def plain_artifacts_def embed_def clean_text_def
      strip_def is_space_def demo_encoder_def S_def cosine_sim_def dot_def py_round_def Let_def)

lemma demo_predict:
  "predict_label ascii_lower (init plain_artifacts demo_encoder)
     (S ''Plants make food from sunlight.'') None =
     Inr \<lparr>label = Some (S ''correct''), confidence = Some 0.9, risk = Some 0.2,
          explanation = None\<rparr>"
  by (simp add: predict_label_def init_def load_def plain_artifacts_def
      const_classifier_def classify_def embed_def risk_keywords_def ascii_lower_def
      S_def py_round_def Let_def)

lemma demo_estimate_result:
  "estimate (diff_est (startup plain_artifacts demo_encoder demo_estimate))
     (question_text demo_body) (qid demo_body) =
     Inr \<lparr>difficulty_norm = 0.5, bucket = S ''medium'', known_qid = None\<rparr>"
  by (simp add: startup_def DifficultyEstimator_init_def demo_estimate_def demo_body_def)

lemma demo_app_predict:
  "predict_label ascii_lower (mis_analyzer (startup plain_artifacts demo_encoder demo_estimate))
     (user_answer_text demo_body) (qid demo_body) =
     Inr \<lparr>label = Some (S ''correct''), confidence = Some 0.9, risk = Some 0.2,
          explanation = None\<rparr>"
  using demo_predict by (simp add: startup_def demo_body_def)

lemma demo_app_similarity:
  "similarity (mis_analyzer (startup plain_artifacts demo_encoder demo_estimate))
     (user_answer_text demo_body) (ideal_answer_text demo_body) = 0.8"
  using demo_similarity by (simp add: startup_def demo_body_def)

lemma demo_mis_risk:
  "derive_mis_risk \<lparr>label = Some (S ''correct''), confidence = Some 0.9, risk = Some 0.2,
     explanation = None\<rparr> = 0.2"
  by (simp add: derive_mis_risk_def get_or_def S_def)

text \<open>The request of similarity 0.51, with the same label and risk.\<close>

lemma tie_valid: "AnalyzeBody_valid tie_body"
  by (simp add: AnalyzeBody_valid_def tie_body_def S_def)

lemma tie_app_similarity:
  "similarity (mis_analyzer (startup plain_artifacts tie_encoder demo_estimate))
     (user_answer_text tie_body) (ideal_answer_text tie_body) = 51 / 100"
  by (simp add: startup_def tie_body_def similarity_def init_def load_def plain_artifacts_def
      embed_def clean_text_def strip_def is_space_def tie_encoder_def S_def cosine_sim_def
      dot_def py_round_def Let_def)

lemma tie_app_predict:
  "predict_label ascii_lower (mis_analyzer (startup plain_artifacts tie_encoder demo_estimate))
     (user_answer_text tie_body) (qid tie_body) =
     Inr \<lparr>label = Some (S ''correct''), confidence = Some 0.9, risk = Some 0.2,
          explanation = None\<rparr>"
  by (simp add: startup_def tie_body_def predict_label_def init_def load_def plain_artifacts_def
      const_classifier_def classify_def embed_def risk_keywords_def ascii_lower_def
      S_def py_round_def Let_def)

lemma tie_estimate_result:
  "estimate (diff_est (startup plain_artifacts tie_encoder demo_estimate))
     (question_text tie_body) (qid tie_body) =
     Inr \<lparr>difficulty_norm = 0.5, bucket = S ''medium'', known_qid = None\<rparr>"
  by (simp add: startup_def DifficultyEstimator_init_def demo_estimate_def tie_body_def)

section \<open>Claims\<close>

text \<open>
  Claim C1. For every request that passes the schema, when the prediction and the
  difficulty estimate succeed, \<open>POST /api/analyze/freeform\<close> returns a result whose
  answer score is \<open>0.65 * sim_ui + 0.35 * (1 - mis_risk)\<close>, computed on doubles as the
  code computes it, rounded to 3 decimals, where \<open>sim_ui\<close> is the similarity of the
  user answer to the ideal answer and \<open>mis_risk\<close> is the derived, clamped risk of the
  prediction.
\<close>

theorem post_analyze_freeform_answer_score:
  assumes "AnalyzeBody_valid b"
    and "predict_label lower (mis_analyzer app) (user_answer_text b) (qid b) = Inr p"
    and "estimate (diff_est app) (question_text b) (qid b) = Inr d"
  shows "\<exists>r. post_analyze_freeform lower app b = Inr r \<and>
     answer_score r =
       py_round
         (fadd
            (fmul 0.65 (similarity (mis_analyzer app) (user_answer_text b) (ideal_answer_text b)))
            (fmul 0.35 (fsub 1 (derive_mis_risk p)))) 3"
  using analyze_freeform_success [OF assms(2,3)] assms(1)
  by (auto simp: post_analyze_freeform_def blend_answer_score_def)

text \<open>
  The theorem on the request of similarity 0.51 and risk 0.2. The score is 0.611: in
  exact arithmetic the blend would be the tie 0.6115 and round to 0.612, the doubles
  add up to a number below it.
\<close>

theorem post_analyze_freeform_answer_score_witness:
  "\<exists>r. post_analyze_freeform ascii_lower (startup plain_artifacts tie_encoder demo_estimate)
       tie_body = Inr r \<and>
     answer_score r = 611 / 1000"
proof -
  from post_analyze_freeform_answer_score [OF tie_valid tie_app_predict tie_estimate_result]
  obtain r where r: "post_analyze_freeform ascii_lower
        (startup plain_artifacts tie_encoder demo_estimate) tie_body = Inr r"
      and a: "answer_score r =
        py_round (fadd (fmul 0.65 (51 / 100)) (fmul 0.35 (fsub 1 (2 / 10)))) 3"
    unfolding tie_app_similarity demo_mis_risk by auto
  have "py_round (fadd (fmul 0.65 (51 / 100)) (fmul 0.35 (fsub 1 (2 / 10)))) 3 =
      blend_answer_score (51 / 100) (2 / 10)"
    by (simp add: blend_answer_score_def)
  with a have "answer_score r = 611 / 1000"
    by (simp only: blend_answer_score_051_02)
  with r show ?thesis
    by blast
qed

text \<open>
  Claim C2, as amended. Provided the classifier's probabilities lie in \<open>[0,1]\<close>, every
  prediction that \<open>predict_label\<close> returns has its confidence in \<open>[0,1]\<close> and its
  risk in \<open>[0.2, 1.4]\<close>. The risk is not bounded by 1: the heuristic
  \<open>max(0.4, 1.0 - conf + 0.4)\<close> exceeds 1 as soon as the confidence is below 0.4, and
  \<open>predict_label\<close> does not clamp it.
\<close>

theorem predict_label_ranges:
  assumes wf: "\<And>c vec proba. clf self = Some c \<Longrightarrow> predict_proba c vec = Inr proba \<Longrightarrow>
      list_all (\<lambda>p. 0 \<le> p \<and> p \<le> 1) proba"
    and r: "predict_label lower self user_answer q = Inr p"
  shows "\<exists>c r. confidence p = Some c \<and> risk p = Some r \<and>
     0 \<le> c \<and> c \<le> 1 \<and> 0.2 \<le> r \<and> r \<le> 1.4"
  using predict_label_cases [OF r]
proof (elim disjE exE conjE)
  assume "confidence p = Some 0.5" "risk p = Some 0.4"
  then show ?thesis
    by (intro exI [of _ "1 / 2"] exI [of _ "2 / 5"]) simp
next
  fix c lbl conf rsk
  assume c: "clf self = Some c"
    and cl: "classify c (encoder self (clean_text user_answer)) = Inr (lbl, conf)"
    and p: "confidence p = Some (py_round conf 3)" "risk p = Some (py_round rsk 3)"
    and b: "0.2 \<le> rsk" "rsk \<le> max 0.5 (1.4 - conf)"
  have conf: "0 \<le> conf \<and> conf \<le> 1"
    using classify_conf [OF wf [OF c] cl] by simp
  with b have rb: "200 / 1000 \<le> rsk \<and> rsk \<le> 1400 / 1000"
    by (auto simp: max_def split: if_splits)
  from conf py_round3_bounds [of 0 conf 1000]
  have "0 \<le> py_round conf 3 \<and> py_round conf 3 \<le> 1"
    by simp
  moreover from rb py_round3_bounds [of 200 rsk 1400]
  have "0.2 \<le> py_round rsk 3 \<and> py_round rsk 3 \<le> 1.4"
    by simp
  ultimately show ?thesis
    using p by simp
qed

text \<open>
  The theorem at a classifier with three classes whose most probable class, "noise",
  has probability 0.375.
\<close>

theorem predict_label_ranges_witness:
  "predict_label ascii_lower (init risky_artifacts demo_encoder)
       (S ''It is just random.'') None =
     Inr \<lparr>label = Some (S ''noise''), confidence = Some (375 / 1000),
          risk = Some (1025 / 1000), explanation = None\<rparr> \<and>
   (\<exists>c r. confidence \<lparr>label = Some (S ''noise''), confidence = Some (375 / 1000),
             risk = Some (1025 / 1000), explanation = None\<rparr> = Some c \<and>
     risk \<lparr>label = Some (S ''noise''), confidence = Some (375 / 1000),
           risk = Some (1025 / 1000), explanation = None\<rparr> = Some r \<and>
     0 \<le> c \<and> c \<le> 1 \<and> 0.2 \<le> r \<and> r \<le> 1.4)"
proof -
  have wf: "list_all (\<lambda>p. 0 \<le> p \<and> p \<le> 1) proba"
    if "clf (init risky_artifacts demo_encoder) = Some c" "predict_proba c vec = Inr proba"
    for c vec proba
    using that by (auto simp: init_def clf_load risky_artifacts_def const_classifier_def)
  have r: "predict_label ascii_lower (init risky_artifacts demo_encoder)
      (S ''It is just random.'') None =
     Inr \<lparr>label = Some (S ''noise''), confidence = Some (375 / 1000),
          risk = Some (1025 / 1000), explanation = None\<rparr>"
    by (simp add: predict_label_def init_def load_def risky_artifacts_def
        const_classifier_def classify_def embed_def risk_keywords_def ascii_lower_def
        S_def py_round_def Let_def)
  from r predict_label_ranges [OF wf r] show ?thesis
    by (rule conjI)
qed

text \<open>
  Claim C2 as stated fails: with that classifier \<open>predict_label\<close> returns the risk
  1.025, which is above 1.
\<close>

theorem predict_label_risk_above_one:
  "predict_label ascii_lower (init risky_artifacts demo_encoder) (S ''It is just random.'') None =
     Inr \<lparr>label = Some (S ''noise''), confidence = Some (375 / 1000),
          risk = Some (1025 / 1000), explanation = None\<rparr> \<and>
   (1::real) < 1025 / 1000"
  by (simp add: predict_label_def init_def load_def risky_artifacts_def
      const_classifier_def classify_def embed_def risk_keywords_def ascii_lower_def
      S_def py_round_def Let_def)

text \<open>
  Claim C3, as amended. When the artifacts directory is empty, \<open>GET /health\<close> returns
  \<open>artifacts: true\<close> and \<open>difficulty_items: 0\<close>: \<open>_load\<close> sets \<open>loaded\<close> at its end
  whether or not a file was found, and the estimator has no item.
\<close>

theorem health_empty_artifacts:
  assumes "misconception_clf_joblib art = None" and "cluster_labels_parquet art = None"
    and "item_difficulty_table art = None"
  shows "health (startup art enc est) = \<lparr>ok = True, artifacts = True, difficulty_items = 0\<rparr>"
  using assms
  by (simp add: health_def startup_def init_def loaded_load DifficultyEstimator_init_def)

theorem health_empty_artifacts_witness:
  "health (startup empty_artifacts demo_encoder demo_estimate) =
     \<lparr>ok = True, artifacts = True, difficulty_items = 0\<rparr>"
  using health_empty_artifacts [of empty_artifacts demo_encoder demo_estimate]
  by (simp add: empty_artifacts_def)

text \<open>Claim C3 as stated fails: on the empty directory the \<open>artifacts\<close> flag is set.\<close>

theorem health_artifacts_flag_set:
  "artifacts (health (startup empty_artifacts demo_encoder demo_estimate)) = True"
  by (simp add: health_def startup_def init_def load_def empty_artifacts_def)

text \<open>
  Claim C4, as amended. For \<open>sim_ui = 0.8\<close> and \<open>mis_risk = 0.2\<close> the answer score
  that the analyze endpoint computes is 0.8, that is \<open>round(0.65*0.8 + 0.35*0.8, 3)\<close>.
\<close>

theorem answer_score_instance:
  assumes "analyze_freeform lower app b = Inr r"
    and "similarity (mis_analyzer app) (user_answer_text b) (ideal_answer_text b) = 0.8"
    and "derive_mis_risk (misconception r) = 0.2"
  shows "answer_score r = 0.8"
proof -
  have "answer_score r = blend_answer_score 0.8 0.2"
    using analyze_freeform_Inr [OF assms(1)] assms(2,3) by simp
  also have "\<dots> = 0.8"
    using blend_answer_score_08_02 by simp
  finally show ?thesis .
qed

text \<open>The theorem on the concrete request, whose similarity is 0.8 and whose risk is 0.2.\<close>

theorem answer_score_instance_witness:
  "\<exists>r. analyze_freeform ascii_lower (startup plain_artifacts demo_encoder demo_estimate)
       demo_body = Inr r \<and>
     answer_score r = 0.8"
proof -
  let ?app = "startup plain_artifacts demo_encoder demo_estimate"
  let ?p = "\<lparr>label = Some (S ''correct''), confidence = Some 0.9, risk = Some 0.2,
    explanation = None\<rparr>"
  from analyze_freeform_success [OF demo_app_predict demo_estimate_result] obtain r
    where r: "analyze_freeform ascii_lower ?app demo_body = Inr r"
      and mr: "misconception r = ?p"
    by blast
  have m: "derive_mis_risk (misconception r) = 0.2"
    by (simp only: mr demo_mis_risk)
  from answer_score_instance [OF r demo_app_similarity m] r show ?thesis
    by blast
qed

text \<open>
  Claim C4 as stated fails: the blend of similarity 0.8 and risk 0.2 is 0.8, which is
  not 0.92.
\<close>

theorem answer_score_instance_not_092:
  "blend_answer_score (8 / 10) (2 / 10) = 8 / 10 \<and> (8 / 10 :: real) \<noteq> 92 / 100"
  using blend_answer_score_08_02 by simp

text \<open>
  Claim C5. When no classifier artifact is loaded, \<open>predict_label\<close> returns label
  "unknown", confidence 0.5, risk 0.4 and the explanatory note, for every text and every
  optional qid.
\<close>

theorem predict_label_fallback:
  assumes "clf self = None"
  shows "predict_label lower self user_answer q =
     Inr \<lparr>label = Some (S ''unknown''), confidence = Some 0.5, risk = Some 0.4,
          explanation = Some (S ''No classifier artifact found.'')\<rparr>"
  using assms by (simp add: predict_label_def)

theorem predict_label_fallback_witness:
  "predict_label ascii_lower (init empty_artifacts demo_encoder)
     (S ''Plants make food from sunlight.'') (Some 7) =
     Inr \<lparr>label = Some (S ''unknown''), confidence = Some 0.5, risk = Some 0.4,
          explanation = Some (S ''No classifier artifact found.'')\<rparr>"
proof -
  have "clf (init empty_artifacts demo_encoder) = None"
    by (simp add: init_def clf_load empty_artifacts_def)
  then show ?thesis
    by (rule predict_label_fallback)
qed



text \<open>
  Claim C7. In the analyze endpoint the risk is \<open>1 - confidence\<close> (confidence 0.5 if
  absent; the subtraction is that of doubles) exactly when the predicted label is
  exactly "noise" or "misc", and otherwise the prediction's risk field (0.4 if absent);
  in every case the result is clamped to \<open>[0,1]\<close>.
\<close>

theorem derive_mis_risk_rule:
  "derive_mis_risk p =
     max 0 (min 1 (if label p = Some (S ''noise'') \<or> label p = Some (S ''misc'')
                   then fsub 1 (case confidence p of None \<Rightarrow> 0.5 | Some c \<Rightarrow> c)
                   else (case risk p of None \<Rightarrow> 0.4 | Some x \<Rightarrow> x))) \<and>
   0 \<le> derive_mis_risk p \<and> derive_mis_risk p \<le> 1"
  by (simp add: derive_mis_risk_def get_or_def Let_def split: option.splits)

text \<open>
  The theorem on three predictions: the label "noise", the same label once it carries
  the unseen marker (so that the risk field 1.025 is taken and clamped), and a
  prediction without a risk field.
\<close>

theorem derive_mis_risk_rule_witness:
  "derive_mis_risk \<lparr>label = Some (S ''noise''), confidence = Some 0.375, risk = Some 1.025,
     explanation = None\<rparr> = 0.625 \<and>
   derive_mis_risk \<lparr>label = Some (S ''noise (unseen@qid)''), confidence = Some 0.375,
     risk = Some 1.025, explanation = None\<rparr> = 1 \<and>
   derive_mis_risk \<lparr>label = Some (S ''correct''), confidence = Some 0.9, risk = None,
     explanation = None\<rparr> = 0.4"
proof -
  have one: "fl 1 = 1"
    by (subst fl_binade [where k = 0]) (simp_all add: rne_def Let_def)
  have c: "fl (375 / 1000) = 375 / 1000"
    by (subst fl_binade [where k = 2]) (simp_all add: rne_def Let_def)
  have d: "fl (1 - 375 / 1000) = 625 / 1000"
    by (subst fl_binade [where k = 1]) (simp_all add: rne_def Let_def)
  have f: "fsub 1 (375 / 1000) = 625 / 1000"
    by (simp only: fsub_def one c d)
  show ?thesis
    using derive_mis_risk_rule [of "\<lparr>label = Some (S ''noise''), confidence = Some 0.375,
        risk = Some 1.025, explanation = None\<rparr>"]
      derive_mis_risk_rule [of "\<lparr>label = Some (S ''noise (unseen@qid)''),
        confidence = Some 0.375, risk = Some 1.025, explanation = None\<rparr>"]
      derive_mis_risk_rule [of "\<lparr>label = Some (S ''correct''), confidence = Some 0.9,
        risk = None, explanation = None\<rparr>"]
      f
    by (simp add: S_def)
qed

text \<open>
  Claim C8, as amended. \<open>suggest_guidance\<close> returns the opening tip, then the
  definition tip exactly when the similarity of the user answer to the ideal answer is
  below 0.65, then the contrast tip exactly when the lowercased label contains one of
  "epsilon", the letter U+03B5, "dfa", "nfa", "regex", "star", "union", "concat",
  "equiv", then the closing tip, joined with single spaces.
\<close>

theorem suggest_guidance_tips:
  "suggest_guidance lower self question ideal user mis_label =
     join (S '' '')
       ([tip_start] @
        (if similarity self user ideal < 0.65 then [tip_definition] else []) @
        (if list_ex (\<lambda>k. str_in k (lower mis_label))
              [S ''epsilon'', [949], S ''dfa'', S ''nfa'', S ''regex'', S ''star'', S ''union'',
               S ''concat'', S ''equiv'']
         then [tip_contrast] else []) @
        [tip_finish])"
  by (simp add: suggest_guidance_def guidance_keywords_def Let_def)

text \<open>The theorem on an answer of similarity 0.6 and the label "NFA vs DFA": all four tips.\<close>

theorem suggest_guidance_tips_witness:
  "suggest_guidance ascii_lower (init plain_artifacts demo_encoder) (S ''Explain photosynthesis.'')
     (S ''Plants convert light into chemical energy.'') (S ''I do not know.'') (S ''NFA vs DFA'') =
   tip_start @ S '' '' @ tip_definition @ S '' '' @ tip_contrast @ S '' '' @ tip_finish"
proof -
  have k: "list_ex (\<lambda>k. str_in k (ascii_lower (S ''NFA vs DFA'')))
      [S ''epsilon'', [949], S ''dfa'', S ''nfa'', S ''regex'', S ''star'', S ''union'',
       S ''concat'', S ''equiv'']"
    by (simp add: ascii_lower_def S_def)
  show ?thesis
    using suggest_guidance_tips [of ascii_lower "init plain_artifacts demo_encoder"
        "S ''Explain photosynthesis.''" "S ''Plants convert light into chemical energy.''"
        "S ''I do not know.''" "S ''NFA vs DFA''"]
    by (simp only: low_similarity k) simp
qed

text \<open>
  Claim C8 as stated fails: on the label that is the single letter U+03B5 the contrast
  tip is returned, although the lowercased label contains none of the eight keywords
  of the claim.
\<close>

theorem suggest_guidance_epsilon_letter:
  "suggest_guidance ascii_lower (init plain_artifacts demo_encoder) (S ''Explain photosynthesis.'')
     (S ''Plants convert light into chemical energy.'') (S ''Plants make food from sunlight.'')
     [949] =
   tip_start @ S '' '' @ tip_contrast @ S '' '' @ tip_finish \<and>
   \<not> list_ex (\<lambda>k. str_in k (ascii_lower [949]))
       [S ''epsilon'', S ''dfa'', S ''nfa'', S ''regex'', S ''star'', S ''union'',
        S ''concat'', S ''equiv'']"
proof -
  have k: "list_ex (\<lambda>k. str_in k (ascii_lower [949])) guidance_keywords"
    by (simp add: ascii_lower_def guidance_keywords_def)
  have n: "\<not> list_ex (\<lambda>k. str_in k (ascii_lower [949]))
      [S ''epsilon'', S ''dfa'', S ''nfa'', S ''regex'', S ''star'', S ''union'',
       S ''concat'', S ''equiv'']"
    by (simp add: ascii_lower_def S_def)
  have g: "suggest_guidance ascii_lower (init plain_artifacts demo_encoder)
      (S ''Explain photosynthesis.'') (S ''Plants convert light into chemical energy.'')
      (S ''Plants make food from sunlight.'') [949] =
     tip_start @ S '' '' @ tip_contrast @ S '' '' @ tip_finish"
    by (simp add: suggest_guidance_def Let_def demo_similarity k)
  from g n show ?thesis
    by (rule conjI)
qed

text \<open>
  Claim C9, as amended. Every request body that the schema accepts has all three text
  fields non-empty as they were sent; a field is non-empty after trimming exactly when
  it holds a character that is not whitespace.
\<close>

theorem AnalyzeBody_valid_nonempty:
  assumes "AnalyzeBody_valid b"
  shows "question_text b \<noteq> [] \<and> ideal_answer_text b \<noteq> [] \<and> user_answer_text b \<noteq> [] \<and>
     (strip (question_text b) \<noteq> []) = list_ex (\<lambda>c. \<not> is_space c) (question_text b) \<and>
     (strip (ideal_answer_text b) \<noteq> []) = list_ex (\<lambda>c. \<not> is_space c) (ideal_answer_text b) \<and>
     (strip (user_answer_text b) \<noteq> []) = list_ex (\<lambda>c. \<not> is_space c) (user_answer_text b)"
  using assms by (auto simp: AnalyzeBody_valid_def strip_empty_iff list_all_iff list_ex_iff)

theorem AnalyzeBody_valid_nonempty_witness:
  "question_text demo_body \<noteq> [] \<and> ideal_answer_text demo_body \<noteq> [] \<and>
   user_answer_text demo_body \<noteq> [] \<and> strip (question_text demo_body) \<noteq> [] \<and>
   strip (ideal_answer_text demo_body) \<noteq> [] \<and> strip (user_answer_text demo_body) \<noteq> []"
proof -
  have e: "list_ex (\<lambda>c. \<not> is_space c) (question_text demo_body)"
    "list_ex (\<lambda>c. \<not> is_space c) (ideal_answer_text demo_body)"
    "list_ex (\<lambda>c. \<not> is_space c) (user_answer_text demo_body)"
    by (simp_all add: demo_body_def S_def is_space_def)
  from AnalyzeBody_valid_nonempty [OF demo_valid] e show ?thesis
    by simp
qed

text \<open>
  Claim C9 as stated fails: a body of three spaces, three spaces and one space passes
  the schema, and each of its fields is empty after trimming.
\<close>

theorem AnalyzeBody_valid_blank:
  "AnalyzeBody_valid blank_body \<and> strip (question_text blank_body) = [] \<and>
   strip (ideal_answer_text blank_body) = [] \<and> strip (user_answer_text blank_body) = []"
  by (simp add: AnalyzeBody_valid_def blank_body_def strip_def is_space_def S_def)

text \<open>
  Claim C10. When no classifier artifact is loaded, the out-of-distribution annotation
  is never applied: even with a qid that has a reference label set, \<open>predict_label\<close>
  returns the label "unknown", which does not end with the marker, and the risk 0.4.
\<close>

theorem predict_label_fallback_no_ood:
  assumes "clf self = None" and "label_ref self q = Some known"
  shows "\<exists>p. predict_label lower self user_answer (Some q) = Inr p \<and>
     label p = Some (S ''unknown'') \<and> \<not> suffix unseen_marker (S ''unknown'') \<and>
     risk p = Some 0.4"
  using assms by (simp add: predict_label_def unseen_marker_def S_def suffix_to_prefix)

text \<open>The theorem on a directory with a label table for qid 7 and no classifier.\<close>

theorem predict_label_fallback_no_ood_witness:
  "\<exists>p. predict_label ascii_lower (init labels_only_artifacts demo_encoder)
       (S ''It is just random.'') (Some 7) = Inr p \<and>
     label p = Some (S ''unknown'') \<and> \<not> suffix unseen_marker (S ''unknown'') \<and>
     risk p = Some 0.4"
proof -
  have c: "clf (init labels_only_artifacts demo_encoder) = None"
    by (simp add: init_def load_def labels_only_artifacts_def)
  have l: "label_ref (init labels_only_artifacts demo_encoder) 7 = Some [S ''A'', S ''B'']"
    by (simp add: init_def load_def labels_only_artifacts_def group_labels_def S_def)
  show ?thesis
    by (rule predict_label_fallback_no_ood [OF c l])
qed

end
